theory Spec2Isabelle
  imports Complex_Main
begin

section \<open>JavaScript numbers\<close>

text \<open>
  The simulator computes on JavaScript numbers. They are modelled as the real numbers
  extended with \<open>NaN\<close>: arithmetic is exact (no rounding, no overflow to an infinity),
  and \<open>NaN\<close> propagates through every operation and fails every comparison, as in the
  language. A division by zero, which the language answers with an infinity or with
  \<open>NaN\<close>, is answered with \<open>NaN\<close> here; no division of the modelled code has a zero
  divisor (see \<open>scaledLength_nonzero\<close>).
\<close>

datatype number = Num real | NaN

instantiation number :: "{plus, minus, times, uminus, inverse, ord}"
begin

fun plus_number :: "number \<Rightarrow> number \<Rightarrow> number" where
  "plus_number (Num a) (Num b) = Num (a + b)"
| "plus_number _ _ = NaN"

fun minus_number :: "number \<Rightarrow> number \<Rightarrow> number" where
  "minus_number (Num a) (Num b) = Num (a - b)"
| "minus_number _ _ = NaN"

fun times_number :: "number \<Rightarrow> number \<Rightarrow> number" where
  "times_number (Num a) (Num b) = Num (a * b)"
| "times_number _ _ = NaN"

fun uminus_number :: "number \<Rightarrow> number" where
  "uminus_number (Num a) = Num (- a)"
| "uminus_number NaN = NaN"

fun inverse_number :: "number \<Rightarrow> number" where
  "inverse_number (Num a) = (if a = 0 then NaN else Num (inverse a))"
| "inverse_number NaN = NaN"

fun divide_number :: "number \<Rightarrow> number \<Rightarrow> number" where
  "divide_number (Num a) (Num b) = (if b = 0 then NaN else Num (a / b))"
| "divide_number _ _ = NaN"

fun less_eq_number :: "number \<Rightarrow> number \<Rightarrow> bool" where
  "less_eq_number (Num a) (Num b) = (a \<le> b)"
| "less_eq_number _ _ = False"

fun less_number :: "number \<Rightarrow> number \<Rightarrow> bool" where
  "less_number (Num a) (Num b) = (a < b)"
| "less_number _ _ = False"

instance ..

end

text \<open>\<open>Math.max\<close>, \<open>Math.min\<close> and \<open>Math.sin\<close>: each returns \<open>NaN\<close> when an argument is.\<close>

fun Math_max :: "number \<Rightarrow> number \<Rightarrow> number" where
  "Math_max (Num a) (Num b) = Num (max a b)"
| "Math_max _ _ = NaN"

fun Math_min :: "number \<Rightarrow> number \<Rightarrow> number" where
  "Math_min (Num a) (Num b) = Num (min a b)"
| "Math_min _ _ = NaN"

fun Math_sin :: "number \<Rightarrow> number" where
  "Math_sin (Num a) = Num (sin a)"
| "Math_sin NaN = NaN"

definition Math_PI :: number where
  "Math_PI = Num pi"

text \<open>The nullish coalescing operator \<open>a ?? b\<close>; \<open>None\<close> is an absent (undefined) field.\<close>

fun nullish :: "'a option \<Rightarrow> 'a \<Rightarrow> 'a" where
  "nullish (Some v) d = v"
| "nullish None d = d"

section \<open>Parameters (the simulator context)\<close>

text \<open>\<open>SimulatorParams\<close>: the configuration, and the simulated angle and velocity that the
  animation loop writes back into the same object.\<close>

record params =
  length_p :: number
  mass :: number
  startingAngle :: number
  gravity :: number
  damping :: number
  timeInterval :: number
  simulationSpeed :: number
  currentAngle_p :: number
  currentVelocity_p :: number

text \<open>An update object passed to the setter: a field that is absent is \<open>None\<close>.\<close>

record paramsUpdate =
  u_length :: "number option"
  u_mass :: "number option"
  u_startingAngle :: "number option"
  u_gravity :: "number option"
  u_damping :: "number option"
  u_timeInterval :: "number option"
  u_simulationSpeed :: "number option"
  u_currentAngle :: "number option"
  u_currentVelocity :: "number option"

text \<open>\<open>React.SetStateAction\<close>: a new value, or a function of the previous one.\<close>

datatype setStateAction = Value paramsUpdate | Updater "params \<Rightarrow> paramsUpdate"

text \<open>\<open>MIN_SAFE_VALUES\<close>, field by field.\<close>

definition MIN_SAFE_length :: number where
  "MIN_SAFE_length = Num 1"

definition MIN_SAFE_mass :: number where
  "MIN_SAFE_mass = Num 0.1"

definition MIN_SAFE_gravity :: number where
  "MIN_SAFE_gravity = Num 0.01"

definition MIN_SAFE_damping :: number where
  "MIN_SAFE_damping = Num 0"

definition MIN_SAFE_timeInterval :: number where
  "MIN_SAFE_timeInterval = Num 0.001"

definition MIN_SAFE_simulationSpeed :: number where
  "MIN_SAFE_simulationSpeed = Num 0.1"

definition defaultParams :: params where
  "defaultParams =
     \<lparr>length_p = Num 100, mass = Num 1, startingAngle = Num 45, gravity = Num 9.81,
      damping = Num 0, timeInterval = Num 0.01, simulationSpeed = Num 30,
      currentAngle_p = (Num 45 * Math_PI) / Num 180, currentVelocity_p = Num 0\<rparr>"

text \<open>The state computed by \<open>setValidatedParams\<close> from the previous parameters: the spread
  \<open>{...prevParams, ...updatedParams}\<close>, then the six clamped fields.\<close>

definition setValidatedParams :: "setStateAction \<Rightarrow> params \<Rightarrow> params" where
  "setValidatedParams newParams prevParams =
     (let updatedParams = (case newParams of Updater f \<Rightarrow> f prevParams | Value v \<Rightarrow> v)
      in \<lparr>length_p = Math_max (nullish (u_length updatedParams) (length_p prevParams)) MIN_SAFE_length,
          mass = Math_max (nullish (u_mass updatedParams) (mass prevParams)) MIN_SAFE_mass,
          startingAngle = nullish (u_startingAngle updatedParams) (startingAngle prevParams),
          gravity = Math_max (nullish (u_gravity updatedParams) (gravity prevParams)) MIN_SAFE_gravity,
          damping = Math_max (nullish (u_damping updatedParams) (damping prevParams)) MIN_SAFE_damping,
          timeInterval =
            Math_max (nullish (u_timeInterval updatedParams) (timeInterval prevParams)) MIN_SAFE_timeInterval,
          simulationSpeed =
            Math_max (nullish (u_simulationSpeed updatedParams) (simulationSpeed prevParams))
              MIN_SAFE_simulationSpeed,
          currentAngle_p = nullish (u_currentAngle updatedParams) (currentAngle_p prevParams),
          currentVelocity_p = nullish (u_currentVelocity updatedParams) (currentVelocity_p prevParams)\<rparr>)"

text \<open>The parameters that \<open>resetParams\<close> stores.\<close>

definition resetParams_value :: params where
  "resetParams_value =
     defaultParams\<lparr>currentAngle_p := (startingAngle defaultParams * Math_PI) / Num 180,
                    currentVelocity_p := Num 0\<rparr>"

section \<open>The animation loop of the visualization\<close>

text \<open>The variables of the effect's closure. \<open>dt\<close> and \<open>simulationSpeed_c\<close> are the two
  constants computed when the effect starts; \<open>lastTimestamp\<close> is \<open>None\<close> for \<open>null\<close>.\<close>

record engine =
  currentAngle :: number
  currentVelocity :: number
  dt :: number
  simulationSpeed_c :: number
  accumulator :: number
  lastTimestamp :: "number option"

text \<open>"Initialize simulation state": what the effect sets up each time it runs.\<close>

definition initEngine :: "params \<Rightarrow> engine" where
  "initEngine p =
     \<lparr>currentAngle = (startingAngle p * Math_PI) / Num 180,
      currentVelocity = Num 0,
      dt = Math_max (timeInterval p) (Num 0.001),
      simulationSpeed_c = Math_max (simulationSpeed p) (Num 0.1),
      accumulator = Num 0,
      lastTimestamp = None\<rparr>"

text \<open>The string length in canvas pixels, from the canvas's width and height.\<close>

definition scaledLength :: "params \<Rightarrow> number \<Rightarrow> number \<Rightarrow> number" where
  "scaledLength p canvas_width canvas_height =
     (let maxLength = Math_min canvas_width canvas_height * Num 0.8
      in Math_max ((length_p p / Num 200) * maxLength) (Num 1))"

text \<open>The body of the \<open>try\<close> block: one integration step. Arithmetic on numbers and
  \<open>Math.sin\<close> never throw, so no branch returns the error that the \<open>catch\<close> expects.\<close>

datatype error = PhysicsError

definition physicsStep :: "params \<Rightarrow> number \<Rightarrow> engine \<Rightarrow> error + engine" where
  "physicsStep p sl e =
     (if damping p = Num 0 then
        let g = Math_max (gravity p) (Num 0.01);
            e1 = e\<lparr>currentVelocity :=
                    currentVelocity e + (- g / sl) * Math_sin (currentAngle e) * dt e * simulationSpeed_c e\<rparr>;
            e2 = e1\<lparr>currentAngle := currentAngle e1 + currentVelocity e1 * dt e1 * simulationSpeed_c e1\<rparr>
        in Inr e2
      else
        let effectiveDT = dt e * simulationSpeed_c e;
            g = Math_max (gravity p) (Num 0.01);
            acceleration = (\<lambda>theta omega. (- g / sl) * Math_sin theta - damping p * omega);
            k1Angle = currentVelocity e;
            k1Omega = acceleration (currentAngle e) (currentVelocity e);
            k2Angle = currentVelocity e + k1Omega * effectiveDT / Num 2;
            k2Omega = acceleration (currentAngle e + k1Angle * effectiveDT / Num 2)
                        (currentVelocity e + k1Omega * effectiveDT / Num 2);
            k3Angle = currentVelocity e + k2Omega * effectiveDT / Num 2;
            k3Omega = acceleration (currentAngle e + k2Angle * effectiveDT / Num 2)
                        (currentVelocity e + k2Omega * effectiveDT / Num 2);
            k4Angle = currentVelocity e + k3Omega * effectiveDT;
            k4Omega = acceleration (currentAngle e + k3Angle * effectiveDT)
                        (currentVelocity e + k3Omega * effectiveDT)
        in Inr (e\<lparr>currentAngle :=
                    currentAngle e + (effectiveDT / Num 6) * (k1Angle + Num 2 * k2Angle + Num 2 * k3Angle + k4Angle),
                  currentVelocity :=
                    currentVelocity e + (effectiveDT / Num 6) * (k1Omega + Num 2 * k2Omega + Num 2 * k3Omega + k4Omega)\<rparr>))"

text \<open>One turn of the loop body: \<open>try { step } catch { skip }\<close>, where a caught error
  leaves the state as it was, then \<open>accumulator -= dt\<close>.\<close>

definition tryStep :: "params \<Rightarrow> number \<Rightarrow> engine \<Rightarrow> engine" where
  "tryStep p sl e = (case physicsStep p sl e of Inl err \<Rightarrow> e | Inr e' \<Rightarrow> e')"

definition loopBody :: "params \<Rightarrow> number \<Rightarrow> engine \<Rightarrow> engine" where
  "loopBody p sl e = (let e' = tryStep p sl e in e'\<lparr>accumulator := accumulator e' - dt e'\<rparr>)"

text \<open>The fixed-step loop \<open>while (accumulator >= dt) { ... }\<close>. \<open>None\<close> is a loop that
  never ends.\<close>

partial_function (option) physicsLoop :: "params \<Rightarrow> number \<Rightarrow> engine \<Rightarrow> engine option" where
  "physicsLoop p sl e =
     (if accumulator e \<ge> dt e then physicsLoop p sl (loopBody p sl e) else Some e)"

text \<open>The state around the loop: the context's parameters and play flag, the canvas size
  given to the visualization (its \<open>width\<close> and \<open>height\<close>, as read back from the canvas),
  the reset counter, and the closure of the running effect.\<close>

record simulator =
  params :: params
  isPlaying :: bool
  resetTrigger :: nat
  width :: number
  height :: number
  engine :: engine

text \<open>
  \<open>draw\<close> after it has computed \<open>frameTime\<close>: the accumulator takes the frame time when
  playing; the loop runs when playing, and its result is written to the closure and back
  into the parameter object. Drawing on the canvas changes none of this and is left out,
  and so are the component's display copies \<open>angle\<close> and \<open>angleVelocity\<close>, which the
  loop writes and never reads.
\<close>

definition advance :: "number \<Rightarrow> simulator \<Rightarrow> simulator option" where
  "advance frameTime s =
     (let e0 = engine s;
          e1 = (if \<not> isPlaying s then e0 else e0\<lparr>accumulator := accumulator e0 + frameTime\<rparr>);
          sl = scaledLength (params s) (width s) (height s)
      in if isPlaying s then
           (case physicsLoop (params s) sl e1 of
              None \<Rightarrow> None
            | Some e2 \<Rightarrow>
                Some (s\<lparr>engine := e2,
                        params := (params s)\<lparr>currentAngle_p := currentAngle e2,
                                              currentVelocity_p := currentVelocity e2\<rparr>\<rparr>))
         else Some (s\<lparr>engine := e1\<rparr>))"

text \<open>\<open>draw(timestamp)\<close>: the frame time in seconds since the last frame (0 on the first),
  \<open>lastTimestamp = timestamp\<close> in both branches, then the above.\<close>

definition draw :: "number \<Rightarrow> simulator \<Rightarrow> simulator option" where
  "draw timestamp s =
     (let e = engine s;
          last = (case lastTimestamp e of None \<Rightarrow> timestamp | Some l \<Rightarrow> l);
          frameTime = (timestamp - last) / Num 1000
      in advance frameTime (s\<lparr>engine := e\<lparr>lastTimestamp := Some timestamp\<rparr>\<rparr>))"

text \<open>The effect runs again whenever one of its dependencies changes (the parameter object,
  the canvas size, the reset counter), and starts from a fresh closure.\<close>

definition runEffect :: "simulator \<Rightarrow> simulator" where
  "runEffect s = s\<lparr>engine := initEngine (params s)\<rparr>"

text \<open>The component as first mounted on a canvas: default parameters, paused.\<close>

definition mountSimulator :: "number \<Rightarrow> number \<Rightarrow> simulator" where
  "mountSimulator w h =
     runEffect \<lparr>params = defaultParams, isPlaying = False, resetTrigger = 0,
                width = w, height = h, engine = initEngine defaultParams\<rparr>"

text \<open>The operations of the context and of the page. The setter and the reset store a new
  parameter object, so the effect runs again; the play flag is read through a ref and is no
  dependency.\<close>

definition setIsPlaying :: "bool \<Rightarrow> simulator \<Rightarrow> simulator" where
  "setIsPlaying b s = s\<lparr>isPlaying := b\<rparr>"

definition setParams :: "setStateAction \<Rightarrow> simulator \<Rightarrow> simulator" where
  "setParams newParams s = runEffect (s\<lparr>params := setValidatedParams newParams (params s)\<rparr>)"

definition resetParams :: "simulator \<Rightarrow> simulator" where
  "resetParams s = runEffect (s\<lparr>params := resetParams_value, isPlaying := False\<rparr>)"

definition handleReset :: "simulator \<Rightarrow> simulator" where
  "handleReset s =
     (let s1 = setIsPlaying False s;
          s2 = resetParams s1
      in runEffect (s2\<lparr>resetTrigger := resetTrigger s2 + 1\<rparr>))"

definition resizeCanvas :: "number \<Rightarrow> number \<Rightarrow> simulator \<Rightarrow> simulator" where
  "resizeCanvas w h s = runEffect (s\<lparr>width := w, height := h\<rparr>)"

section \<open>The integration step as the specification words it\<close>

text \<open>Semi-implicit Euler with step \<open>h\<close>: the velocity first, then the angle from the new
  velocity.\<close>

definition spec_semi_implicit_euler ::
    "number \<Rightarrow> number \<Rightarrow> number \<Rightarrow> number \<times> number \<Rightarrow> number \<times> number" where
  "spec_semi_implicit_euler g effectiveLength h s =
     (case s of (angle, velocity) \<Rightarrow>
        let velocity' = velocity + (- g / effectiveLength) * Math_sin angle * h;
            angle' = angle + velocity' * h
        in (angle', velocity'))"

definition spec_acceleration :: "number \<Rightarrow> number \<Rightarrow> number \<Rightarrow> number \<Rightarrow> number \<Rightarrow> number" where
  "spec_acceleration g effectiveLength b theta omega =
     (- g / effectiveLength) * Math_sin theta - b * omega"

text \<open>Classical fourth-order Runge-Kutta for the system \<open>angle' = velocity\<close>,
  \<open>velocity' = acceleration angle velocity\<close>.\<close>

definition spec_rk4 :: "(number \<Rightarrow> number \<Rightarrow> number) \<Rightarrow> number \<Rightarrow> number \<times> number \<Rightarrow> number \<times> number" where
  "spec_rk4 acc h s =
     (case s of (angle, velocity) \<Rightarrow>
        let k1_angle = velocity;
            k1_velocity = acc angle velocity;
            k2_angle = velocity + (h / Num 2) * k1_velocity;
            k2_velocity = acc (angle + (h / Num 2) * k1_angle) (velocity + (h / Num 2) * k1_velocity);
            k3_angle = velocity + (h / Num 2) * k2_velocity;
            k3_velocity = acc (angle + (h / Num 2) * k2_angle) (velocity + (h / Num 2) * k2_velocity);
            k4_angle = velocity + h * k3_velocity;
            k4_velocity = acc (angle + h * k3_angle) (velocity + h * k3_velocity)
        in (angle + (h / Num 6) * (k1_angle + Num 2 * k2_angle + Num 2 * k3_angle + k4_angle),
            velocity + (h / Num 6) * (k1_velocity + Num 2 * k2_velocity + Num 2 * k3_velocity + k4_velocity)))"

definition spec_step ::
    "number \<Rightarrow> number \<Rightarrow> number \<Rightarrow> number \<Rightarrow> number \<times> number \<Rightarrow> number \<times> number" where
  "spec_step b g effectiveLength effectiveStep s =
     (if b = Num 0 then spec_semi_implicit_euler g effectiveLength effectiveStep s
      else spec_rk4 (spec_acceleration g effectiveLength b) effectiveStep s)"


section \<open>Inputs used in the examples\<close>

text \<open>The update object \<open>{gravity: g}\<close>.\<close>

definition gravityUpdate :: "number \<Rightarrow> setStateAction" where
  "gravityUpdate g =
     Value \<lparr>u_length = None, u_mass = None, u_startingAngle = None, u_gravity = Some g,
            u_damping = None, u_timeInterval = None, u_simulationSpeed = None,
            u_currentAngle = None, u_currentVelocity = None\<rparr>"

section \<open>Arithmetic of numbers\<close>

lemma number_mult_assoc: "(a * b) * c = a * (b * (c::number))"
  by (cases a; cases b; cases c) simp_all

lemma number_mult_commute: "a * b = b * (a::number)"
  by (cases a; cases b) simp_all

lemma number_divide_times: "(b / c) * a = (b * a) / (c::number)"
  by (cases a; cases b; cases c) simp_all

section \<open>The step of the loop and the step of the specification\<close>

lemma physicsStep_euler:
  "damping p = Num 0 \<Longrightarrow>
   physicsStep p sl e =
     Inr (e\<lparr>currentAngle := fst (spec_semi_implicit_euler (Math_max (gravity p) (Num 0.01)) sl
                                   (dt e * simulationSpeed_c e) (currentAngle e, currentVelocity e)),
            currentVelocity := snd (spec_semi_implicit_euler (Math_max (gravity p) (Num 0.01)) sl
                                   (dt e * simulationSpeed_c e) (currentAngle e, currentVelocity e))\<rparr>)"
  by (simp add: physicsStep_def spec_semi_implicit_euler_def Let_def number_mult_assoc)

lemma physicsStep_rk4:
  "damping p \<noteq> Num 0 \<Longrightarrow>
   physicsStep p sl e =
     Inr (e\<lparr>currentAngle := fst (spec_rk4 (spec_acceleration (Math_max (gravity p) (Num 0.01)) sl (damping p))
                                   (dt e * simulationSpeed_c e) (currentAngle e, currentVelocity e)),
            currentVelocity := snd (spec_rk4 (spec_acceleration (Math_max (gravity p) (Num 0.01)) sl (damping p))
                                   (dt e * simulationSpeed_c e) (currentAngle e, currentVelocity e))\<rparr>)"
  apply (simp add: physicsStep_def spec_rk4_def spec_acceleration_def Let_def number_divide_times)
  apply (simp add: number_mult_commute[of "dt e * simulationSpeed_c e"])
  done



lemma physicsStep_never_fails: "physicsStep p sl e \<noteq> Inl err"
  by (simp add: physicsStep_def Let_def)

lemma tryStep_frame:
  "dt (tryStep p sl e) = dt e" "simulationSpeed_c (tryStep p sl e) = simulationSpeed_c e"
  "accumulator (tryStep p sl e) = accumulator e" "lastTimestamp (tryStep p sl e) = lastTimestamp e"
  by (simp_all add: tryStep_def physicsStep_def Let_def)

lemma loopBody_dt: "dt (loopBody p sl e) = dt e"
  by (simp add: loopBody_def Let_def tryStep_frame)


lemma loopBody_lastTimestamp: "lastTimestamp (loopBody p sl e) = lastTimestamp e"
  by (simp add: loopBody_def Let_def tryStep_frame)

lemma loopBody_accumulator: "accumulator (loopBody p sl e) = accumulator e - dt e"
  by (simp add: loopBody_def Let_def tryStep_frame)




lemma funpow_loopBody_lastTimestamp: "lastTimestamp ((loopBody p sl ^^ n) e) = lastTimestamp e"
  by (induction n) (simp_all add: loopBody_lastTimestamp)



section \<open>The loop\<close>

lemma physicsLoop_exit: "\<not> accumulator e \<ge> dt e \<Longrightarrow> physicsLoop p sl e = Some e"
  by (subst physicsLoop.simps) simp

lemma physicsLoop_turn: "accumulator e \<ge> dt e \<Longrightarrow> physicsLoop p sl e = physicsLoop p sl (loopBody p sl e)"
  by (subst physicsLoop.simps) simp

lemma physicsLoop_steps:
  "dt e = Num t \<Longrightarrow> 0 < t \<Longrightarrow> accumulator e = Num a \<Longrightarrow> real n * t \<le> a \<Longrightarrow> a < (real n + 1) * t \<Longrightarrow>
   physicsLoop p sl e = Some ((loopBody p sl ^^ n) e)"
proof (induction n arbitrary: e a)
  case 0
  then show ?case by (simp add: physicsLoop_exit)
next
  case (Suc n)
  have ge: "accumulator e \<ge> dt e"
    using Suc.prems by (simp add: algebra_simps) (smt (verit) mult_nonneg_nonneg of_nat_0_le_iff)
  have "physicsLoop p sl (loopBody p sl e) = Some ((loopBody p sl ^^ n) (loopBody p sl e))"
  proof (rule Suc.IH)
    show "dt (loopBody p sl e) = Num t" by (simp add: loopBody_dt Suc.prems)
    show "0 < t" by fact
    show "accumulator (loopBody p sl e) = Num (a - t)" by (simp add: loopBody_accumulator Suc.prems)
    show "real n * t \<le> a - t" using Suc.prems by (simp add: algebra_simps)
    show "a - t < (real n + 1) * t" using Suc.prems by (simp add: algebra_simps)
  qed
  then show ?case
    by (simp add: physicsLoop_turn[OF ge] funpow_swap1)
qed




text \<open>The floor under \<open>dt\<close> is what ends the loop: with a step of 0 and a non-negative
  accumulator it would turn forever.\<close>

lemma physicsLoop_zero_step_aux:
  "physicsLoop p sl e = Some r \<Longrightarrow> \<not> (dt e = Num 0 \<and> Num 0 \<le> accumulator e)"
proof (induction rule: physicsLoop.raw_induct[rotated 1, consumes 1])
  case (1 loop p sl e r)
  show ?case
  proof
    assume z: "dt e = Num 0 \<and> Num 0 \<le> accumulator e"
    then have "accumulator e \<ge> dt e" by simp
    with 1(2) have "loop p sl (loopBody p sl e) = Some r" by simp
    from 1(1)[OF this] z show False
      by (cases "accumulator e") (simp_all add: loopBody_dt loopBody_accumulator)
  qed
qed

lemma physicsLoop_zero_step:
  "dt e = Num 0 \<Longrightarrow> Num 0 \<le> accumulator e \<Longrightarrow> physicsLoop p sl e = None"
  using physicsLoop_zero_step_aux[of p sl e] by (cases "physicsLoop p sl e") auto

section \<open>Frames of the default simulator\<close>


lemma mountSimulator_engine:
  "engine (mountSimulator w h) =
     \<lparr>currentAngle = Num (pi / 4), currentVelocity = Num 0, dt = Num 0.01,
      simulationSpeed_c = Num 30, accumulator = Num 0, lastTimestamp = None\<rparr>"
  by (simp add: mountSimulator_def runEffect_def initEngine_def defaultParams_def Math_PI_def)

lemma mountSimulator_fields:
  "params (mountSimulator w h) = defaultParams" "isPlaying (mountSimulator w h) = False"
  "width (mountSimulator w h) = w" "height (mountSimulator w h) = h"
  by (simp_all add: mountSimulator_def runEffect_def)


lemma defaultParams_fields:
  "length_p defaultParams = Num 100" "startingAngle defaultParams = Num 45"
  "gravity defaultParams = Num 9.81" "damping defaultParams = Num 0"
  "timeInterval defaultParams = Num 0.01" "simulationSpeed defaultParams = Num 30"
  by (simp_all add: defaultParams_def)

lemma scaledLength_default_400: "scaledLength defaultParams (Num 400) (Num 400) = Num 160"
  by (simp add: scaledLength_def defaultParams_fields Let_def)

lemma scaledLength_default_200: "scaledLength defaultParams (Num 200) (Num 200) = Num 80"
  by (simp add: scaledLength_def defaultParams_fields Let_def)

lemma advance_one_step:
  assumes "isPlaying s" "dt (engine s) = Num t" "0 < t" "accumulator (engine s) = Num 0"
  shows "advance (Num t) s =
    Some (s\<lparr>engine := loopBody (params s) (scaledLength (params s) (width s) (height s))
                         ((engine s)\<lparr>accumulator := Num t\<rparr>),
            params := (params s)
              \<lparr>currentAngle_p := currentAngle (loopBody (params s) (scaledLength (params s) (width s) (height s))
                         ((engine s)\<lparr>accumulator := Num t\<rparr>)),
               currentVelocity_p := currentVelocity (loopBody (params s) (scaledLength (params s) (width s) (height s))
                         ((engine s)\<lparr>accumulator := Num t\<rparr>))\<rparr>\<rparr>)"
proof -
  let ?e1 = "(engine s)\<lparr>accumulator := Num t\<rparr>"
  have "physicsLoop (params s) (scaledLength (params s) (width s) (height s)) ?e1 =
        Some ((loopBody (params s) (scaledLength (params s) (width s) (height s)) ^^ 1) ?e1)"
    by (rule physicsLoop_steps[where t = t and a = t]) (use assms in simp_all)
  then show ?thesis using assms by (simp add: advance_def Let_def)
qed

lemma default_first_step:
  assumes "scaledLength defaultParams w h = Num l" "l \<noteq> 0"
  shows "\<exists>s'. advance (Num 0.01) (setIsPlaying True (mountSimulator w h)) = Some s'
    \<and> currentVelocity (engine s') = Num (- 9.81 / l * sin (pi / 4) * 0.01 * 30)
    \<and> currentAngle (engine s') = Num (pi / 4 + (- 9.81 / l * sin (pi / 4) * 0.01 * 30) * 0.01 * 30)
    \<and> accumulator (engine s') = Num 0"
  apply (subst advance_one_step[where t = "0.01"])
  apply (simp_all add: setIsPlaying_def mountSimulator_fields mountSimulator_engine)
  apply (simp add: loopBody_def tryStep_def physicsStep_def Let_def assms defaultParams_fields)
  done


lemma sin_quarter_pi_pos: "0 < sin (pi / 4)"
  by (simp add: sin_45)

lemma scaledLength_nonzero: "scaledLength p w h \<noteq> Num 0"
proof -
  have "Math_max x (Num 1) \<noteq> Num 0" for x
    by (cases x) simp_all
  then show ?thesis by (simp add: scaledLength_def Let_def)
qed

lemma draw_is_advance:
  "lastTimestamp (engine s) = Some (Num l) \<Longrightarrow>
   draw (Num (l + 1000 * d)) s =
     advance (Num d) (s\<lparr>engine := (engine s)\<lparr>lastTimestamp := Some (Num (l + 1000 * d))\<rparr>\<rparr>)"
  by (simp add: draw_def Let_def)

lemma draw_first_frame:
  "lastTimestamp (engine s) = None \<Longrightarrow>
   draw (Num ts) s = advance (Num 0) (s\<lparr>engine := (engine s)\<lparr>lastTimestamp := Some (Num ts)\<rparr>\<rparr>)"
  by (simp add: draw_def Let_def)

section \<open>The integration step\<close>

text \<open>
  C2. One integration step is chosen by \<open>damping\<close> alone. With \<open>damping = 0\<close> it is the
  semi-implicit Euler step (the velocity is advanced first, and the angle then uses the new
  velocity); otherwise it is the classical Runge-Kutta step of order four for the
  acceleration \<open>(-gravity / length) * sin theta - damping * omega\<close>, combined with the weights
  \<open>(h / 6) * (k1 + 2 k2 + 2 k3 + k4)\<close> for the angle and for the velocity alike. The step
  size is \<open>dt * simulationSpeed\<close>, gravity is floored at 0.01, and the step never fails.
\<close>

theorem physicsStep_is_spec_step:
  "physicsStep p sl e =
     Inr (e\<lparr>currentAngle := fst (spec_step (damping p) (Math_max (gravity p) (Num 0.01)) sl
                                   (dt e * simulationSpeed_c e) (currentAngle e, currentVelocity e)),
            currentVelocity := snd (spec_step (damping p) (Math_max (gravity p) (Num 0.01)) sl
                                   (dt e * simulationSpeed_c e) (currentAngle e, currentVelocity e))\<rparr>)"
  by (cases "damping p = Num 0") (simp_all add: spec_step_def physicsStep_euler physicsStep_rk4)

text \<open>
  C1. The length that a step divides gravity by is the string length in canvas pixels,
  \<open>max ((length / 200) * (0.8 * min width height)) 1\<close>, not the length in metres: with the
  default parameters on a canvas of 400 by 400 it is 160, where \<open>length / 100\<close> is 1, and
  the first step gives the velocity \<open>-(9.81 / 160) * sin (pi / 4) * 0.3\<close> rather than
  \<open>-(9.81 / 1) * sin (pi / 4) * 0.3\<close>.
\<close>

theorem step_length_is_canvas_scaled:
  "scaledLength defaultParams (Num 400) (Num 400) = Num 160
   \<and> length_p defaultParams / Num 100 = Num 1
   \<and> (\<exists>s'. advance (Num 0.01) (setIsPlaying True (mountSimulator (Num 400) (Num 400))) = Some s'
        \<and> currentVelocity (engine s') = Num (- 9.81 / 160 * sin (pi / 4) * 0.01 * 30)
        \<and> currentVelocity (engine s') \<noteq> Num (- 9.81 / 1 * sin (pi / 4) * 0.01 * 30))"
proof -
  obtain s1 where s1: "advance (Num 0.01) (setIsPlaying True (mountSimulator (Num 400) (Num 400))) = Some s1"
    "currentVelocity (engine s1) = Num (- 9.81 / 160 * sin (pi / 4) * 0.01 * 30)"
    using default_first_step[OF scaledLength_default_400] by auto
  have "currentVelocity (engine s1) \<noteq> Num (- 9.81 / 1 * sin (pi / 4) * 0.01 * 30)"
    using sin_quarter_pi_pos by (simp add: s1(2))
  then show ?thesis
    using s1 by (simp add: scaledLength_default_400 defaultParams_fields)
qed

text \<open>
  C10. The trajectory depends on the canvas: with the same default parameters and the same
  frame of 0.01 s, canvases of 400 by 400 and of 200 by 200 give the lengths 160 and 80, and
  the angle and the velocity after the step differ between the two.
\<close>

theorem trajectory_depends_on_canvas:
  "scaledLength defaultParams (Num 400) (Num 400) = Num 160
   \<and> scaledLength defaultParams (Num 200) (Num 200) = Num 80
   \<and> params (mountSimulator (Num 400) (Num 400)) = params (mountSimulator (Num 200) (Num 200))
   \<and> (\<exists>s1 s2. advance (Num 0.01) (setIsPlaying True (mountSimulator (Num 400) (Num 400))) = Some s1
        \<and> advance (Num 0.01) (setIsPlaying True (mountSimulator (Num 200) (Num 200))) = Some s2
        \<and> currentAngle (engine s1) \<noteq> currentAngle (engine s2)
        \<and> currentVelocity (engine s1) \<noteq> currentVelocity (engine s2))"
proof -
  obtain s1 where s1: "advance (Num 0.01) (setIsPlaying True (mountSimulator (Num 400) (Num 400))) = Some s1"
    "currentVelocity (engine s1) = Num (- 9.81 / 160 * sin (pi / 4) * 0.01 * 30)"
    "currentAngle (engine s1) = Num (pi / 4 + (- 9.81 / 160 * sin (pi / 4) * 0.01 * 30) * 0.01 * 30)"
    using default_first_step[OF scaledLength_default_400] by auto
  obtain s2 where s2: "advance (Num 0.01) (setIsPlaying True (mountSimulator (Num 200) (Num 200))) = Some s2"
    "currentVelocity (engine s2) = Num (- 9.81 / 80 * sin (pi / 4) * 0.01 * 30)"
    "currentAngle (engine s2) = Num (pi / 4 + (- 9.81 / 80 * sin (pi / 4) * 0.01 * 30) * 0.01 * 30)"
    using default_first_step[OF scaledLength_default_200] by auto
  have "currentVelocity (engine s1) \<noteq> currentVelocity (engine s2)"
    using sin_quarter_pi_pos by (simp add: s1 s2)
  moreover have "currentAngle (engine s1) \<noteq> currentAngle (engine s2)"
    using sin_quarter_pi_pos by (simp add: s1 s2)
  ultimately show ?thesis
    using s1(1) s2(1)
    by (simp add: scaledLength_default_400 scaledLength_default_200 mountSimulator_fields)
qed

text \<open>
  C4. A step whose arithmetic meets \<open>NaN\<close> is not skipped. The store accepts the gravity
  \<open>NaN\<close> (\<open>Math.max\<close> returns it); the next turn of the loop then replaces the angle
  \<open>pi / 4\<close> and the velocity 0 by \<open>NaN\<close>, while the accumulator is lowered as usual. The
  step never raises the error that the \<open>catch\<close> would turn into a skipped step.
\<close>

theorem nan_gravity_step:
  "gravity (setValidatedParams (gravityUpdate NaN) defaultParams) = NaN
   \<and> currentAngle (engine (setIsPlaying True (setParams (gravityUpdate NaN) (mountSimulator (Num 400) (Num 400)))))
       = Num (pi / 4)
   \<and> currentVelocity (engine (setIsPlaying True (setParams (gravityUpdate NaN) (mountSimulator (Num 400) (Num 400)))))
       = Num 0
   \<and> (\<exists>s'. advance (Num 0.01)
              (setIsPlaying True (setParams (gravityUpdate NaN) (mountSimulator (Num 400) (Num 400)))) = Some s'
        \<and> currentAngle (engine s') = NaN
        \<and> currentVelocity (engine s') = NaN
        \<and> accumulator (engine s') = Num 0)
   \<and> physicsStep p sl e \<noteq> Inl err"
proof -
  let ?s = "setIsPlaying True (setParams (gravityUpdate NaN) (mountSimulator (Num 400) (Num 400)))"
  have p: "gravity (params ?s) = NaN" "damping (params ?s) = Num 0"
    by (simp_all add: setIsPlaying_def setParams_def runEffect_def setValidatedParams_def gravityUpdate_def
        mountSimulator_fields defaultParams_fields MIN_SAFE_damping_def)
  have e: "engine ?s = \<lparr>currentAngle = Num (pi / 4), currentVelocity = Num 0, dt = Num 0.01,
      simulationSpeed_c = Num 30, accumulator = Num 0, lastTimestamp = None\<rparr>"
    by (simp add: setIsPlaying_def setParams_def runEffect_def setValidatedParams_def gravityUpdate_def
        mountSimulator_fields defaultParams_fields initEngine_def Math_PI_def
        MIN_SAFE_timeInterval_def MIN_SAFE_simulationSpeed_def)
  have playing: "isPlaying ?s" by (simp add: setIsPlaying_def)
  have "\<exists>s'. advance (Num 0.01) ?s = Some s' \<and> currentAngle (engine s') = NaN
        \<and> currentVelocity (engine s') = NaN \<and> accumulator (engine s') = Num 0"
    apply (subst advance_one_step[where t = "0.01"])
    apply (simp_all add: playing e)
    apply (simp add: loopBody_def tryStep_def physicsStep_def Let_def p)
    done
  moreover have "gravity (setValidatedParams (gravityUpdate NaN) defaultParams) = NaN"
    by (simp add: setValidatedParams_def gravityUpdate_def)
  moreover have "physicsStep p sl e \<noteq> Inl err"
    by (rule physicsStep_never_fails)
  ultimately show ?thesis by (simp add: e)
qed

section \<open>The fixed-step loop\<close>






section \<open>The parameter store and reset\<close>



text \<open>
  C8. A reset, from the page or from the settings panel, always pauses, stores the default
  parameters, and restarts the closure with the accumulator 0, the angle
  \<open>45 * pi / 180\<close> (the starting angle in radians) and the velocity 0, whatever the state
  before; a second reset changes none of these.
\<close>

theorem reset_idempotent:
  "engine (handleReset (handleReset s)) = engine (handleReset s)
   \<and> params (handleReset (handleReset s)) = params (handleReset s)
   \<and> isPlaying (handleReset (handleReset s)) = isPlaying (handleReset s)
   \<and> engine (resetParams (resetParams s)) = engine (resetParams s)
   \<and> isPlaying (handleReset s) = False
   \<and> isPlaying (resetParams s) = False
   \<and> accumulator (engine (handleReset s)) = Num 0
   \<and> accumulator (engine (resetParams s)) = Num 0
   \<and> params (handleReset s) =
        \<lparr>length_p = Num 100, mass = Num 1, startingAngle = Num 45, gravity = Num 9.81,
         damping = Num 0, timeInterval = Num 0.01, simulationSpeed = Num 30,
         currentAngle_p = Num (45 * pi / 180), currentVelocity_p = Num 0\<rparr>
   \<and> params (resetParams s) = params (handleReset s)
   \<and> currentAngle (engine (handleReset s)) = startingAngle (params (handleReset s)) * Math_PI / Num 180
   \<and> currentAngle (engine (handleReset s)) = Num (45 * pi / 180)
   \<and> currentVelocity (engine (handleReset s)) = Num 0
   \<and> currentAngle (engine (resetParams s)) = Num (45 * pi / 180)
   \<and> currentVelocity (engine (resetParams s)) = Num 0"
  by (simp add: handleReset_def resetParams_def setIsPlaying_def runEffect_def initEngine_def
      resetParams_value_def defaultParams_def Math_PI_def Let_def)

section \<open>Who changes the angle and the velocity\<close>

text \<open>
  C9, as claimed. An update of the parameters does change the angle and the velocity: after
  one step of the playing default simulator, setting the gravity to 5 puts them back to
  their initial values.
\<close>

theorem setParams_restarts_kinematic_state:
  "(case advance (Num 0.01) (setIsPlaying True (mountSimulator (Num 400) (Num 400))) of
      None \<Rightarrow> False
    | Some s \<Rightarrow>
        (currentAngle (engine (setParams (gravityUpdate (Num 5)) s)),
         currentVelocity (engine (setParams (gravityUpdate (Num 5)) s)))
        \<noteq> (currentAngle (engine s), currentVelocity (engine s)))"
proof -
  obtain s1 where s1: "advance (Num 0.01) (setIsPlaying True (mountSimulator (Num 400) (Num 400))) = Some s1"
    "currentVelocity (engine s1) = Num (- 9.81 / 160 * sin (pi / 4) * 0.01 * 30)"
    using default_first_step[OF scaledLength_default_400] by auto
  have "currentVelocity (engine (setParams (gravityUpdate (Num 5)) s1)) = Num 0"
    by (simp add: setParams_def runEffect_def initEngine_def)
  then have neq: "currentVelocity (engine (setParams (gravityUpdate (Num 5)) s1)) \<noteq> currentVelocity (engine s1)"
    using sin_quarter_pi_pos by (simp add: s1(2))
  show ?thesis unfolding s1(1) using neq by simp
qed

text \<open>
  C9, amended. A paused frame changes nothing but the last timestamp; play and pause leave
  the closure alone; and mounting, each update of the parameters, each resize of the canvas
  and each reset start a fresh closure, with the angle \<open>startingAngle * pi / 180\<close>, the
  velocity 0 and the accumulator 0.
\<close>

theorem kinematic_state_frame:
  "(\<not> isPlaying s \<longrightarrow> advance frameTime s = Some s)
   \<and> (\<not> isPlaying s \<longrightarrow>
        draw timestamp s = Some (s\<lparr>engine := (engine s)\<lparr>lastTimestamp := Some timestamp\<rparr>\<rparr>))
   \<and> engine (setIsPlaying b s) = engine s
   \<and> engine (setParams newParams s) = initEngine (params (setParams newParams s))
   \<and> engine (resizeCanvas w h s) = initEngine (params s)
   \<and> engine (resetParams s) = initEngine resetParams_value
   \<and> engine (handleReset s) = initEngine resetParams_value
   \<and> engine (mountSimulator w h) = initEngine defaultParams
   \<and> currentAngle (initEngine p) = startingAngle p * Math_PI / Num 180
   \<and> currentVelocity (initEngine p) = Num 0
   \<and> accumulator (initEngine p) = Num 0"
  by (simp add: advance_def draw_def Let_def setIsPlaying_def setParams_def resizeCanvas_def
      resetParams_def handleReset_def mountSimulator_def runEffect_def initEngine_def)

theorem kinematic_state_frame_witness:
  "\<not> isPlaying (mountSimulator (Num 400) (Num 400))
   \<and> advance (Num 0.1) (mountSimulator (Num 400) (Num 400)) = Some (mountSimulator (Num 400) (Num 400))
   \<and> draw (Num 100) (mountSimulator (Num 400) (Num 400)) =
       Some ((mountSimulator (Num 400) (Num 400))
              \<lparr>engine := (engine (mountSimulator (Num 400) (Num 400)))\<lparr>lastTimestamp := Some (Num 100)\<rparr>\<rparr>)"
  using kinematic_state_frame[where s = "mountSimulator (Num 400) (Num 400)" and frameTime = "Num 0.1"
      and timestamp = "Num 100"]
  by (simp add: mountSimulator_fields)

end
